theory Spec2Isabelle
  imports Main
begin

section \<open>Shared values\<close>

text \<open>
  A Go \<^verbatim>\<open>interface{}\<close> value as the engine passes it around: \<^verbatim>\<open>nil\<close>, a scalar, or a
  \<^verbatim>\<open>[]interface{}\<close>. The constructor tells the dynamic type, which is what a Go type
  assertion inspects.
\<close>

datatype go_value =
    VNil
  | VBool bool
  | VInt int
  | VStr string
  | VSlice "go_value list"

datatype sql_type = LongText | NullType | Boolean

text \<open>\<^verbatim>\<open>expression.NewLiteral(value, type)\<close>.\<close>

datatype expression = Literal go_value sql_type

text \<open>Errors the modelled functions return, and the two run-time panics of indexing.\<close>

datatype go_error =
    ErrEscapedByLength
  | ErrEnclosedByLength
  | ErrFieldNotEnclosed
  | ErrInvalidChildrenNumber nat nat
  | ErrOpenFile string
  | ErrScanner
  | ErrExpectedSingleRow
  | ErrOther string

datatype go_panic = IndexOutOfRange | SliceBoundsOutOfRange | NilDereference

section \<open>File ingestion: \<^verbatim>\<open>LoadData\<close> (package plan)\<close>

subsection \<open>The package-level delimiter variables\<close>

record parsing_consts =
  fieldsTerminatedByDelim :: string
  fieldsEnclosedByDelim :: string
  fieldsOptionallyDelim :: bool
  fieldsEscapedByDelim :: string
  linesTerminatedByDelim :: string
  linesStartingByDelim :: string

text \<open>The values the \<^verbatim>\<open>var\<close> block gives them when the package is loaded.\<close>

definition initial_consts :: parsing_consts where
  "initial_consts =
     \<lparr> fieldsTerminatedByDelim = [CHR 0x09],
       fieldsEnclosedByDelim = [],
       fieldsOptionallyDelim = False,
       fieldsEscapedByDelim = [CHR 0x5C],
       linesTerminatedByDelim = [CHR 0x0A],
       linesStartingByDelim = [] \<rparr>"

subsection \<open>The pieces of \<^verbatim>\<open>strings\<close> that the parser calls\<close>

text \<open>
  \<^verbatim>\<open>strings.Index(s, substr)\<close>: the index of the first occurrence, \<open>None\<close> for Go's
  \<open>-1\<close>. Strings are byte sequences, as in Go.
\<close>

fun Index :: "string \<Rightarrow> string \<Rightarrow> nat option" where
  "Index [] sub = (if sub = [] then Some 0 else None)"
| "Index (c # t) sub =
     (if take (length sub) (c # t) = sub then Some 0
      else map_option Suc (Index t sub))"

text \<open>
  The size \<^verbatim>\<open>utf8.DecodeRuneInString\<close> returns for the first UTF-8 sequence of a string:
  one for an ASCII byte; one for a byte that starts no sequence, for a sequence cut short
  and for a sequence with a byte out of its range; otherwise the two, three or four bytes
  of the sequence. The second byte of a sequence has a narrower range after the leading
  bytes E0, ED, F0 and F4.
\<close>

definition in_range :: "nat \<Rightarrow> nat \<Rightarrow> char \<Rightarrow> bool" where
  "in_range lo hi c = (lo \<le> (of_char c :: nat) \<and> (of_char c :: nat) \<le> hi)"

fun rune_size :: "string \<Rightarrow> nat" where
  "rune_size [] = 0"
| "rune_size (c # t) =
     (let x = (of_char c :: nat) in
      if x < 128 then 1
      else if x < 194 \<or> 244 < x then 1
      else
        (let sz = (if x < 224 then 2 else if x < 240 then 3 else 4) :: nat;
             lo = (if x = 224 then 160 else if x = 240 then 144 else 128) :: nat;
             hi = (if x = 237 then 159 else if x = 244 then 143 else 191) :: nat
         in if length (c # t) < sz then 1
            else if \<not> in_range lo hi (t ! 0) then 1
            else if sz \<le> 2 then 2
            else if \<not> in_range 128 191 (t ! 1) then 1
            else if sz \<le> 3 then 3
            else if \<not> in_range 128 191 (t ! 2) then 1
            else 4))"

lemma rune_size_pos: "0 < rune_size (c # t)"
  by (simp add: Let_def)

text \<open>
  \<^verbatim>\<open>explode(s, -1)\<close>, which \<^verbatim>\<open>strings.Split\<close> calls for the empty separator: one piece
  for each UTF-8 sequence, and a piece of its own for each byte that is in no valid
  sequence. (Releases of Go that replace such a byte by the encoding of U+FFFD differ on
  input that is not valid UTF-8.)
\<close>

function explode :: "string \<Rightarrow> string list" where
  "explode [] = []"
| "explode (c # t) =
     take (rune_size (c # t)) (c # t) # explode (drop (rune_size (c # t)) (c # t))"
  by pat_completeness auto
termination
proof (relation "measure length")
  show "wf (measure length)" by simp
next
  fix c :: char and t :: string
  have "0 < rune_size (c # t)" by (rule rune_size_pos)
  then show "(drop (rune_size (c # t)) (c # t), c # t) \<in> measure length"
    by simp
qed

declare explode.simps [simp del]
declare rune_size.simps [simp del]

lemma Index_bound: "Index s sub = Some m \<Longrightarrow> m + length sub \<le> length s"
proof (induction s arbitrary: m)
  case Nil
  then show ?case by (simp split: if_splits)
next
  case (Cons c t)
  show ?case
  proof (cases "take (length sub) (c # t) = sub")
    case True
    with Cons.prems have "m = 0" by simp
    moreover have "length sub \<le> length (c # t)"
    proof -
      have "length (take (length sub) (c # t)) = length sub"
        using True by simp
      then show ?thesis by simp
    qed
    ultimately show ?thesis by simp
  next
    case False
    with Cons.prems obtain k where k: "Index t sub = Some k" "m = Suc k"
      by auto
    from Cons.IH [OF k(1)] k(2) show ?thesis by simp
  qed
qed

text \<open>
  \<^verbatim>\<open>strings.Split(s, sep)\<close> for a non-empty separator cuts at every occurrence, left to
  right, and always returns at least one piece; for the empty separator it is
  \<^verbatim>\<open>explode\<close>.
\<close>

function Split :: "string \<Rightarrow> string \<Rightarrow> string list" where
  "Split s sep =
     (if sep = [] then explode s
      else (case Index s sep of
              None \<Rightarrow> [s]
            | Some m \<Rightarrow> take m s # Split (drop (m + length sep) s) sep))"
  by pat_completeness auto
termination
proof (relation "measure (\<lambda>(s, sep). length s)")
  show "wf (measure (\<lambda>(s, sep). length s))" by simp
next
  fix s sep :: string and m :: nat
  assume ne: "sep \<noteq> []" and ix: "Index s sep = Some m"
  from ne have pos: "0 < length sep" by simp
  from Index_bound [OF ix] pos have "0 < length s" "0 < m + length sep"
    by arith+
  then show "((drop (m + length sep) s, sep), (s, sep)) \<in> measure (\<lambda>(s, sep). length s)"
    by simp
qed

declare Split.simps [simp del]

text \<open>
  \<^verbatim>\<open>string(b)\<close> for a byte \<open>b\<close>: Go converts the integer to the UTF-8 encoding of the
  code point of that value, one byte below 128 and two bytes from 128 on.
\<close>

definition byte_to_string :: "char \<Rightarrow> string" where
  "byte_to_string c =
     (if (of_char c :: nat) < 128 then [c]
      else [char_of (192 + (of_char c :: nat) div 64),
            char_of (128 + (of_char c :: nat) mod 64)])"

subsection \<open>The node and the parser's configuration\<close>

text \<open>
  \<^verbatim>\<open>sqlparser.Lines\<close>, \<^verbatim>\<open>sqlparser.EnclosedBy\<close> and \<^verbatim>\<open>sqlparser.Fields\<close>: a pointer
  field is an option, \<open>None\<close> for \<^verbatim>\<open>nil\<close>, and an \<^verbatim>\<open>SQLVal\<close> is the byte string it
  holds.
\<close>

record Lines =
  StartingBy :: "string option"
  Lines_TerminatedBy :: "string option"

record EnclosedBy =
  Optionally :: bool
  Delim :: "string option"

record Fields =
  TerminatedBy :: "string option"
  EnclosedBy :: "EnclosedBy option"
  EscapedBy :: "string option"

text \<open>
  The destination is an \<^verbatim>\<open>sql.Node\<close>; the node below uses its name, its \<^verbatim>\<open>Resolved\<close>
  flag and its schema.
\<close>

record node =
  node_name :: string
  node_resolved :: bool
  node_schema :: "string list"

record LoadData =
  Local :: bool
  File :: string
  Destination :: node
  ColumnNames :: "string list"
  ResponsePacketSent :: bool
  Fields :: "Fields option"
  Lines :: "Lines option"
  IgnoreNum :: int

definition Tmpfiledir :: string where
  "Tmpfiledir = ''/tmp/''"

definition TmpfileName :: string where
  "TmpfileName = ''.LOADFILE''"

definition NewLoadData ::
  "bool \<Rightarrow> string \<Rightarrow> node \<Rightarrow> string list \<Rightarrow> Fields option \<Rightarrow> Lines option \<Rightarrow> int \<Rightarrow> LoadData"
where
  "NewLoadData local file destination cols flds lns ignoreNum =
     \<lparr> Local = local, File = file, Destination = destination, ColumnNames = cols,
       ResponsePacketSent = False, Fields = flds, Lines = lns,
       IgnoreNum = ignoreNum \<rparr>"

definition Schema :: "LoadData \<Rightarrow> string list" where
  "Schema l = node_schema (Destination l)"

subsection \<open>\<^verbatim>\<open>updateParsingConsts\<close>\<close>

text \<open>
  The function assigns to the package-level variables one after the other and returns
  early on an error, so what it assigned before the error stays assigned. The model takes
  the variables and returns them with the error.
\<close>

definition updateLines :: "Lines option \<Rightarrow> parsing_consts \<Rightarrow> parsing_consts" where
  "updateLines lns g =
     (case lns of
        None \<Rightarrow> g
      | Some ll \<Rightarrow>
          (let g1 = (case StartingBy ll of
                       None \<Rightarrow> g
                     | Some v \<Rightarrow> g\<lparr>linesStartingByDelim := v\<rparr>)
           in (case Lines_TerminatedBy ll of
                 None \<Rightarrow> g1
               | Some v \<Rightarrow> g1\<lparr>linesTerminatedByDelim := v\<rparr>)))"

definition updateEnclosedBy ::
  "EnclosedBy option \<Rightarrow> parsing_consts \<Rightarrow> parsing_consts \<times> go_error option"
where
  "updateEnclosedBy enc g =
     (case enc of
        None \<Rightarrow> (g, None)
      | Some lfe \<Rightarrow>
          (let g1 = (if Optionally lfe then g\<lparr>fieldsOptionallyDelim := True\<rparr> else g)
           in (case Delim lfe of
                 None \<Rightarrow> (g1, None)
               | Some v \<Rightarrow>
                   if length v > 1 then (g1, Some ErrEnclosedByLength)
                   else (g1\<lparr>fieldsEnclosedByDelim := v\<rparr>, None))))"

definition updateFields ::
  "Fields option \<Rightarrow> parsing_consts \<Rightarrow> parsing_consts \<times> go_error option"
where
  "updateFields flds g =
     (case flds of
        None \<Rightarrow> (g, None)
      | Some lf \<Rightarrow>
          (let g1 = (case TerminatedBy lf of
                       None \<Rightarrow> g
                     | Some v \<Rightarrow> g\<lparr>fieldsTerminatedByDelim := v\<rparr>)
           in (case EscapedBy lf of
                 None \<Rightarrow> updateEnclosedBy (EnclosedBy lf) g1
               | Some v \<Rightarrow>
                   if length v > 1 then (g1, Some ErrEscapedByLength)
                   else updateEnclosedBy (EnclosedBy lf)
                          (g1\<lparr>fieldsEscapedByDelim := v\<rparr>))))"

definition updateParsingConsts ::
  "LoadData \<Rightarrow> parsing_consts \<Rightarrow> parsing_consts \<times> go_error option"
where
  "updateParsingConsts l g = updateFields (Fields l) (updateLines (Lines l) g)"

subsection \<open>\<^verbatim>\<open>parseLinePrefix\<close> and \<^verbatim>\<open>parseFields\<close>\<close>

definition parseLinePrefix :: "parsing_consts \<Rightarrow> string \<Rightarrow> string" where
  "parseLinePrefix g line =
     (if linesStartingByDelim g = [] then line
      else (case Index line (linesStartingByDelim g) of
              None \<Rightarrow> []
            | Some prefixIndex \<Rightarrow>
                drop (prefixIndex + length (linesStartingByDelim g)) line))"

text \<open>
  What a call of \<^verbatim>\<open>parseFields\<close> ends in: \<^verbatim>\<open>nil, nil\<close> for a skipped line, the
  expressions, the error, or a run-time panic.
\<close>

datatype parse_result =
    Skipped
  | Parsed "expression list"
  | Failed go_error
  | Panicked go_panic

text \<open>
  Step 3 of \<^verbatim>\<open>parseFields\<close>, the loop over the split fields. \<^verbatim>\<open>field[0]\<close> on an empty
  field is an index out of range; \<^verbatim>\<open>field[1 : len(field)-1]\<close> on a field of one byte is
  the slice \<^verbatim>\<open>[1:0]\<close>, out of bounds as well. The loop stops at the first field that
  panics or is not enclosed.
\<close>

fun stripEnclosed :: "string \<Rightarrow> string list \<Rightarrow> go_panic + go_error + string list" where
  "stripEnclosed d [] = Inr (Inr [])"
| "stripEnclosed d (field # rest) =
     (if field = [] then Inl IndexOutOfRange
      else if byte_to_string (hd field) = d \<and> byte_to_string (last field) = d then
        (if length field < 2 then Inl SliceBoundsOutOfRange
         else (case stripEnclosed d rest of
                 Inr (Inr fs) \<Rightarrow> Inr (Inr (take (length field - 2) (drop 1 field) # fs))
               | other \<Rightarrow> other))
      else Inr (Inl ErrFieldNotEnclosed))"

definition parseFields :: "parsing_consts \<Rightarrow> string \<Rightarrow> parse_result" where
  "parseFields g line0 =
     (let line = parseLinePrefix g line0 in
      if line = [] then Skipped
      else
        (let flds = Split line (fieldsTerminatedByDelim g) in
         (case (if fieldsEnclosedByDelim g \<noteq> []
                then stripEnclosed (fieldsEnclosedByDelim g) flds
                else Inr (Inr flds)) of
            Inl p \<Rightarrow> Panicked p
          | Inr (Inl e) \<Rightarrow> Failed e
          | Inr (Inr fs) \<Rightarrow> Parsed (map (\<lambda>field. Literal (VStr field) LongText) fs))))"

subsection \<open>\<^verbatim>\<open>RowIter\<close>\<close>

function addNullsToValues :: "expression list \<Rightarrow> int \<Rightarrow> expression list" where
  "addNullsToValues exprs i =
     (if i > 0 then addNullsToValues (exprs @ [Literal VNil NullType]) (i - 1)
      else exprs)"
  by pat_completeness auto
termination
  by (relation "measure (\<lambda>(exprs, i). nat i)") auto

declare addNullsToValues.simps [simp del]

text \<open>
  What \<^verbatim>\<open>RowIter\<close> ends in: the rows of the \<^verbatim>\<open>Values\<close> node it builds, the error it
  returns, or a panic of \<^verbatim>\<open>parseFields\<close>.
\<close>

datatype rowiter_result =
    Rows "expression list list"
  | RowIterError go_error
  | RowIterPanic go_panic

text \<open>
  The \<^verbatim>\<open>for scanner.Scan()\<close> loop over the lines the scanner yields. It carries
  \<^verbatim>\<open>l.IgnoreNum\<close>, which the loop decrements on the node itself, and \<^verbatim>\<open>values\<close>;
  \<open>n\<close> is \<^verbatim>\<open>len(l.Schema())\<close>.
\<close>

fun scanLoop ::
  "parsing_consts \<Rightarrow> nat \<Rightarrow> string list \<Rightarrow> int \<Rightarrow> expression list list
     \<Rightarrow> int \<times> rowiter_result"
where
  "scanLoop g n [] ignoreNum vals = (ignoreNum, Rows vals)"
| "scanLoop g n (line # rest) ignoreNum vals =
     (if ignoreNum \<le> 0 then
        (case parseFields g line of
           Failed err \<Rightarrow> (ignoreNum, RowIterError err)
         | Panicked p \<Rightarrow> (ignoreNum, RowIterPanic p)
         | Skipped \<Rightarrow> scanLoop g n rest ignoreNum vals
         | Parsed exprs \<Rightarrow>
             scanLoop g n rest ignoreNum
               (vals @ [addNullsToValues exprs (int n - int (length exprs))]))
      else scanLoop g n rest (ignoreNum - 1) vals)"

text \<open>
  The file system is outside the program: \<open>fs name\<close> is the error of \<^verbatim>\<open>os.Open\<close>, or
  the lines the scanner yields from the file and the error \<^verbatim>\<open>scanner.Err()\<close> reports
  after the last one. \<^verbatim>\<open>RowIter\<close> returns the node as it leaves it, the package-level
  variables as it leaves them, and its result.
\<close>

type_synonym filesystem = "string \<Rightarrow> go_error + (string list \<times> go_error option)"

definition RowIter ::
  "LoadData \<Rightarrow> parsing_consts \<Rightarrow> filesystem \<Rightarrow> LoadData \<times> parsing_consts \<times> rowiter_result"
where
  "RowIter l g fs =
     (case updateParsingConsts l g of
        (g', Some err) \<Rightarrow> (l, g', RowIterError err)
      | (g', None) \<Rightarrow>
          (let fileName = (if Local l then Tmpfiledir @ TmpfileName else File l) in
           (case fs fileName of
              Inl err \<Rightarrow> (l, g', RowIterError err)
            | Inr (lns, scanErr) \<Rightarrow>
                (case scanLoop g' (length (Schema l)) lns (IgnoreNum l) [] of
                   (ignoreNum, Rows vals) \<Rightarrow>
                     (l\<lparr>IgnoreNum := ignoreNum\<rparr>, g',
                      (case scanErr of
                         Some err \<Rightarrow> RowIterError err
                       | None \<Rightarrow> Rows vals))
                 | (ignoreNum, res) \<Rightarrow> (l\<lparr>IgnoreNum := ignoreNum\<rparr>, g', res)))))"

subsection \<open>\<^verbatim>\<open>WithChildren\<close>\<close>

text \<open>
  \<^verbatim>\<open>WithChildren\<close> has a pointer receiver and returns a pointer, so the model keeps the
  nodes in a store: a pointer is an index into it, and allocating a node appends one. The
  function assigns to \<^verbatim>\<open>l.Destination\<close> and returns \<^verbatim>\<open>l\<close>.
\<close>

type_synonym 'a store = "'a list"

definition LoadData_WithChildren ::
  "LoadData store \<Rightarrow> nat \<Rightarrow> node list \<Rightarrow> LoadData store \<times> (go_panic + go_error + nat)"
where
  "LoadData_WithChildren h l children =
     (if length children \<noteq> 1 then
        (h, Inr (Inl (ErrInvalidChildrenNumber (length children) 1)))
      else if l < length h then
        (h[l := (h ! l)\<lparr>Destination := children ! 0\<rparr>], Inr (Inr l))
      else (h, Inl NilDereference))"

section \<open>\<^verbatim>\<open>ExistsOperator\<close> (package expression)\<close>

text \<open>
  The operator holds an \<^verbatim>\<open>sql.Expression\<close>. Of that interface the operator calls
  \<^verbatim>\<open>Eval\<close> and \<^verbatim>\<open>Resolved\<close>, so an expression is modelled by these two: \<^verbatim>\<open>Eval\<close> maps a
  row to the pair of a value and an error, \<open>None\<close> for a \<^verbatim>\<open>nil\<close> error.
\<close>

type_synonym row = "go_value list"

record sql_expression =
  expr_Eval :: "row \<Rightarrow> go_value \<times> go_error option"
  expr_Resolved :: bool

record ExistsOperator =
  subquery :: sql_expression

definition NewExistsOperator :: "sql_expression \<Rightarrow> ExistsOperator" where
  "NewExistsOperator query = \<lparr> subquery = query \<rparr>"

definition ExistsOperator_Type :: "ExistsOperator \<Rightarrow> sql_type" where
  "ExistsOperator_Type e = Boolean"

definition ExistsOperator_IsNullable :: "ExistsOperator \<Rightarrow> bool" where
  "ExistsOperator_IsNullable e = False"

definition ExistsOperator_Resolved :: "ExistsOperator \<Rightarrow> bool" where
  "ExistsOperator_Resolved e = expr_Resolved (subquery e)"

text \<open>
  \<^verbatim>\<open>Eval\<close>: the type assertion \<^verbatim>\<open>subQueryResult.([]interface{})\<close> succeeds exactly on a
  slice value; on \<^verbatim>\<open>nil\<close> it fails, as on every scalar.
\<close>

definition ExistsOperator_Eval :: "ExistsOperator \<Rightarrow> row \<Rightarrow> go_value \<times> go_error option" where
  "ExistsOperator_Eval e r =
     (case expr_Eval (subquery e) r of
        (subQueryResult, Some err) \<Rightarrow> (VNil, Some err)
      | (subQueryResult, None) \<Rightarrow>
          (case subQueryResult of
             VSlice elems \<Rightarrow> (VBool False, None)
           | _ \<Rightarrow> (VBool True, None)))"

text \<open>
  \<^verbatim>\<open>WithChildren\<close> calls \<^verbatim>\<open>NewExistsOperator\<close>, which allocates: the result is a new
  pointer and the receiver is not written.
\<close>

definition ExistsOperator_WithChildren ::
  "ExistsOperator store \<Rightarrow> nat \<Rightarrow> sql_expression list
     \<Rightarrow> ExistsOperator store \<times> (go_error + nat)"
where
  "ExistsOperator_WithChildren h e children =
     (if length children \<noteq> 1 then
        (h, Inl (ErrInvalidChildrenNumber (length children) 1))
      else (h @ [NewExistsOperator (children ! 0)], Inr (length h)))"

section \<open>Properties of the file-ingestion parser\<close>

subsection \<open>Sample nodes\<close>

definition sample_destination :: node where
  "sample_destination =
     \<lparr> node_name = ''mytable'', node_resolved = True, node_schema = [''i'', ''s''] \<rparr>"

text \<open>\<^verbatim>\<open>LOAD DATA INFILE 'data.csv' INTO TABLE mytable\<close>, with no FIELDS or LINES clause.\<close>

definition plain_node :: LoadData where
  "plain_node = NewLoadData False ''data.csv'' sample_destination [] None None 0"


text \<open>The same statement with \<^verbatim>\<open>FIELDS ENCLOSED BY '"'\<close>.\<close>

definition enclosed_node :: LoadData where
  "enclosed_node =
     NewLoadData False ''data.csv'' sample_destination []
       (Some \<lparr> TerminatedBy = None,
               EnclosedBy = Some \<lparr> Optionally = False, Delim = Some [CHR 0x22] \<rparr>,
               EscapedBy = None \<rparr>)
       None 0"


text \<open>The line \<^verbatim>\<open>"a"<TAB><TAB>"b"\<close>: its second field is empty.\<close>

definition empty_field_line :: string where
  "empty_field_line =
     [CHR 0x22, CHR ''a'', CHR 0x22, CHR 0x09, CHR 0x09, CHR 0x22, CHR ''b'', CHR 0x22]"

subsection \<open>What the parser reads of the package-level variables\<close>









lemma updateParsingConsts_keeps_unset:
  "Fields l = None \<Longrightarrow> Lines l = None \<Longrightarrow> updateParsingConsts l g = (g, None)"
  by (simp add: updateParsingConsts_def updateFields_def updateLines_def)


subsection \<open>C9: the delimiter configuration and earlier invocations\<close>




subsection \<open>C10: an empty field under an enclosure delimiter\<close>

text \<open>
  C10 says that \<^verbatim>\<open>parseFields\<close> never indexes out of range, also when an enclosure
  delimiter is set and a field is empty. With \<^verbatim>\<open>FIELDS ENCLOSED BY '"'\<close> and the
  default tab terminator, the line \<^verbatim>\<open>"a"<TAB><TAB>"b"\<close> has an empty second field;
  \<^verbatim>\<open>field[0]\<close> panics on it, and so does \<^verbatim>\<open>RowIter\<close> on a file with that line.
\<close>

theorem empty_field_panics:
  "parseFields (fst (updateParsingConsts enclosed_node initial_consts)) empty_field_line
     = Panicked IndexOutOfRange \<and>
   snd (snd (RowIter enclosed_node initial_consts (\<lambda>name. Inr ([empty_field_line], None))))
     = RowIterPanic IndexOutOfRange"
  by code_simp

text \<open>
  A field that is the delimiter alone panics as well, at the slice \<^verbatim>\<open>field[1:0]\<close>.
  Without an enclosure delimiter the function never panics.
\<close>

lemma lone_delimiter_field_panics:
  "parseFields (fst (updateParsingConsts enclosed_node initial_consts))
     [CHR 0x22, CHR ''a'', CHR 0x22, CHR 0x09, CHR 0x22]
     = Panicked SliceBoundsOutOfRange"
  by code_simp

lemma parseFields_without_enclosure:
  "fieldsEnclosedByDelim g = [] \<Longrightarrow> parseFields g line \<noteq> Panicked p"
  by (simp add: parseFields_def Let_def)

section \<open>C8: what \<^verbatim>\<open>WithChildren\<close> and \<^verbatim>\<open>RowIter\<close> write\<close>

definition other_destination :: node where
  "other_destination =
     \<lparr> node_name = ''othertable'', node_resolved = True, node_schema = [''s2'', ''i2''] \<rparr>"

text \<open>\<^verbatim>\<open>LOAD DATA INFILE 'data.csv' INTO TABLE mytable IGNORE 1 LINES\<close>.\<close>

definition ignoring_node :: LoadData where
  "ignoring_node = NewLoadData False ''data.csv'' sample_destination [] None None 1"

definition two_line_file :: filesystem where
  "two_line_file name = Inr ([''h1'' @ [CHR 0x09] @ ''h2'', ''1'' @ [CHR 0x09] @ ''x''], None)"

text \<open>An expression that evaluates to \<^verbatim>\<open>true\<close> on every row.\<close>

definition constant_true :: sql_expression where
  "constant_true = \<lparr> expr_Eval = (\<lambda>r. (VBool True, None)), expr_Resolved = True \<rparr>"

text \<open>
  The loop of \<^verbatim>\<open>RowIter\<close> counts \<^verbatim>\<open>l.IgnoreNum\<close> down by one for each scanned line
  while it is positive, and never touches it otherwise.
\<close>

lemma scanLoop_IgnoreNum:
  "fst (scanLoop g n lns i vals) \<le> max i 0 \<and> min i 0 \<le> fst (scanLoop g n lns i vals)
   \<and> (i \<le> 0 \<longrightarrow> fst (scanLoop g n lns i vals) = i)"
proof (induction lns arbitrary: i vals)
  case Nil
  show ?case by simp
next
  case (Cons line rest)
  show ?case
  proof (cases "i \<le> 0")
    case True
    then show ?thesis
      using Cons.IH [of i] by (cases "parseFields g line") simp_all
  next
    case False
    then show ?thesis
      using Cons.IH [of "i - 1" vals] by (simp add: max_def min_def split: if_splits)
  qed
qed

lemma RowIter_node:
  "\<exists>k. fst (RowIter l g fs) = l\<lparr>IgnoreNum := k\<rparr> \<and> min (IgnoreNum l) 0 \<le> k \<and> k \<le> max (IgnoreNum l) 0"
proof -
  obtain g' err where u: "updateParsingConsts l g = (g', err)"
    by (cases "updateParsingConsts l g")
  have triv: "l = l\<lparr>IgnoreNum := IgnoreNum l\<rparr>" by simp
  show ?thesis
  proof (cases err)
    case (Some e)
    with u have "fst (RowIter l g fs) = l" by (simp add: RowIter_def)
    then show ?thesis using triv by (intro exI [of _ "IgnoreNum l"]) simp
  next
    case None
    show ?thesis
    proof (cases "fs (if Local l then Tmpfiledir @ TmpfileName else File l)")
      case (Inl e)
      with u None have "fst (RowIter l g fs) = l" by (simp add: RowIter_def)
      then show ?thesis using triv by (intro exI [of _ "IgnoreNum l"]) simp
    next
      case (Inr p)
      obtain lns scanErr where p: "p = (lns, scanErr)" by (cases p)
      let ?r = "scanLoop g' (length (Schema l)) lns (IgnoreNum l) []"
      have "fst (RowIter l g fs) = l\<lparr>IgnoreNum := fst ?r\<rparr>"
        using u None Inr p
        by (cases ?r; cases "snd ?r") (simp_all add: RowIter_def)
      then show ?thesis
        using scanLoop_IgnoreNum [of "g'" "length (Schema l)" lns "IgnoreNum l" "[]"]
        by (intro exI [of _ "fst ?r"]) simp
    qed
  qed
qed

text \<open>
  C8 says that every plan node is immutable after construction: \<^verbatim>\<open>WithChildren\<close>
  produces a new node rather than writing the receiver, and \<^verbatim>\<open>RowIter\<close> leaves all of
  the node's fields unchanged. \<^verbatim>\<open>LoadData.WithChildren\<close> on the node at address 0 with
  another destination leaves a different node at address 0 and returns address 0; and
  \<^verbatim>\<open>RowIter\<close> on a node with \<^verbatim>\<open>IgnoreNum = 1\<close> and a file of two lines leaves
  \<^verbatim>\<open>IgnoreNum = 0\<close> in the node.
\<close>

theorem LoadData_fields_change:
  "fst (LoadData_WithChildren [plain_node] 0 [other_destination]) \<noteq> [plain_node] \<and>
   snd (LoadData_WithChildren [plain_node] 0 [other_destination]) = Inr (Inr 0) \<and>
   IgnoreNum ignoring_node = 1 \<and>
   IgnoreNum (fst (RowIter ignoring_node initial_consts two_line_file)) = 0"
  by code_simp

text \<open>
  C8, as the code has it. \<^verbatim>\<open>LoadData\<close> is written in place: \<^verbatim>\<open>WithChildren\<close> with one
  child stores it in the receiver's \<^verbatim>\<open>Destination\<close> and returns the receiver, allocating
  nothing and leaving every other field and node as it was; with another number of
  children it returns the error and writes nothing. \<^verbatim>\<open>RowIter\<close> writes no field of the
  node but \<^verbatim>\<open>IgnoreNum\<close>, which it leaves between its old value and 0.
  \<^verbatim>\<open>ExistsOperator.WithChildren\<close> writes no existing node, and with one child returns a
  newly allocated one.
\<close>

theorem LoadData_written_in_place:
  "(length children \<noteq> 1 \<longrightarrow>
      LoadData_WithChildren h l children
        = (h, Inr (Inl (ErrInvalidChildrenNumber (length children) 1))))
   \<and> (l < length h \<longrightarrow>
        LoadData_WithChildren h l [child]
          = (h[l := (h ! l)\<lparr>Destination := child\<rparr>], Inr (Inr l)))
   \<and> (\<exists>k. fst (RowIter n g fs) = n\<lparr>IgnoreNum := k\<rparr>
            \<and> min (IgnoreNum n) 0 \<le> k \<and> k \<le> max (IgnoreNum n) 0)
   \<and> take (length hs) (fst (ExistsOperator_WithChildren hs e cs)) = hs
   \<and> (length cs = 1 \<longrightarrow>
        ExistsOperator_WithChildren hs e cs
          = (hs @ [NewExistsOperator (cs ! 0)], Inr (length hs)))"
proof (intro conjI impI)
  show "\<exists>k. fst (RowIter n g fs) = n\<lparr>IgnoreNum := k\<rparr>
            \<and> min (IgnoreNum n) 0 \<le> k \<and> k \<le> max (IgnoreNum n) 0"
    by (rule RowIter_node)
qed (simp_all add: LoadData_WithChildren_def ExistsOperator_WithChildren_def)

theorem LoadData_written_in_place_witness:
  "LoadData_WithChildren [plain_node] 0 []
     = ([plain_node], Inr (Inl (ErrInvalidChildrenNumber 0 1)))
   \<and> LoadData_WithChildren [plain_node] 0 [other_destination]
     = ([plain_node\<lparr>Destination := other_destination\<rparr>], Inr (Inr 0))
   \<and> ExistsOperator_WithChildren [NewExistsOperator constant_true] 0 [constant_true]
     = ([NewExistsOperator constant_true, NewExistsOperator constant_true], Inr 1)"
  using LoadData_written_in_place [of "[]" "[plain_node]" 0 other_destination
      plain_node initial_consts two_line_file "[NewExistsOperator constant_true]" 0
      "[constant_true]"]
  by simp

section \<open>C7: what \<^verbatim>\<open>ExistsOperator.Eval\<close> returns\<close>

text \<open>
  Modelled from the spec: the scalar subquery expression that \<^verbatim>\<open>EXISTS\<close> wraps (package
  plan, not among the sources). Section 4.3: on every evaluation it opens the nested plan
  for the current outer row and drains it; it "requires exactly zero-or-one row and errors
  on more than one", and an error of the nested plan is its error. The nested plan is the
  function from the outer row to the rows it yields. Over no row the value is SQL's NULL,
  \<^verbatim>\<open>nil\<close>; over one row it is the row's first value.
\<close>

definition ScalarSubquery :: "(row \<Rightarrow> go_error + row list) \<Rightarrow> sql_expression" where
  "ScalarSubquery plan =
     \<lparr> expr_Eval =
         (\<lambda>outer. case plan outer of
                     Inl err \<Rightarrow> (VNil, Some err)
                   | Inr [] \<Rightarrow> (VNil, None)
                   | Inr [r] \<Rightarrow> ((case r of [] \<Rightarrow> VNil | v # vs \<Rightarrow> v), None)
                   | Inr (r # r' # rs) \<Rightarrow> (VNil, Some ErrExpectedSingleRow)),
       expr_Resolved = True \<rparr>"

text \<open>Two nested plans: one yields no row, the other the rows \<open>(1)\<close> and \<open>(2)\<close>.\<close>

definition no_rows :: "row \<Rightarrow> go_error + row list" where
  "no_rows outer = Inr []"

definition two_rows :: "row \<Rightarrow> go_error + row list" where
  "two_rows outer = Inr [[VInt 1], [VInt 2]]"

text \<open>
  The result of \<^verbatim>\<open>Eval\<close> in terms of what the wrapped expression returns: its error, or
  else a boolean that is false exactly for a slice value. This holds for every wrapped
  expression.
\<close>

definition is_slice :: "go_value \<Rightarrow> bool" where
  "is_slice v = (case v of VSlice elems \<Rightarrow> True | _ \<Rightarrow> False)"

lemma ExistsOperator_Eval_result:
  "ExistsOperator_Eval e r =
     (case snd (expr_Eval (subquery e) r) of
        Some err \<Rightarrow> (VNil, Some err)
      | None \<Rightarrow> (VBool (\<not> is_slice (fst (expr_Eval (subquery e) r))), None))"
  by (cases "expr_Eval (subquery e) r"; cases "fst (expr_Eval (subquery e) r)")
     (simp_all add: ExistsOperator_Eval_def is_slice_def split: option.splits)

text \<open>
  C7 says that \<^verbatim>\<open>Eval\<close> returns true when the subquery yields at least one row and
  false when it yields none. Over the two-row plan the subquery errors, and \<^verbatim>\<open>Eval\<close>
  returns that error instead of true; over the empty plan the subquery's value is
  \<^verbatim>\<open>nil\<close>, the type assertion fails, and \<^verbatim>\<open>Eval\<close> returns true.
\<close>

theorem exists_on_two_rows_and_on_none:
  "ExistsOperator_Eval (NewExistsOperator (ScalarSubquery two_rows)) []
     = (VNil, Some ErrExpectedSingleRow) \<and>
   ExistsOperator_Eval (NewExistsOperator (ScalarSubquery no_rows)) []
     = (VBool True, None)"
  by (simp add: ExistsOperator_Eval_def NewExistsOperator_def ScalarSubquery_def
      two_rows_def no_rows_def)

end
